theory Spec2Isabelle
  imports Main "HOL-Library.AList"
begin

section \<open>JavaScript primitives used by the sources\<close>

text \<open>
  A JavaScript value that may be \<^verbatim>\<open>undefined\<close> is an option. A string is falsy
  when it is undefined or empty.
\<close>

definition truthy :: "string option \<Rightarrow> bool" where
  "truthy v = (case v of None \<Rightarrow> False | Some s \<Rightarrow> s \<noteq> [])"

text \<open>
  Using a value as a property name (\<^verbatim>\<open>obj[v]\<close>) or inside a template literal converts
  it to a string: \<^verbatim>\<open>undefined\<close> becomes the text "undefined".
\<close>

definition propName :: "string option \<Rightarrow> string" where
  "propName v = (case v of None \<Rightarrow> ''undefined'' | Some s \<Rightarrow> s)"

text \<open>
  \<^verbatim>\<open>Array.prototype.splice(start, deleteCount, ...items)\<close>: a negative start counts
  from the end, both arguments are clamped to the array. The value is the array after
  the call (the sources never use the list of deleted elements).
\<close>

definition arraySplice :: "'a list \<Rightarrow> int \<Rightarrow> int \<Rightarrow> 'a list \<Rightarrow> 'a list" where
  "arraySplice xs start deleteCount items =
     (let len = int (length xs);
          actualStart = (if start < 0 then max (len + start) 0 else min start len);
          actualDeleteCount = min (max deleteCount 0) (len - actualStart)
      in take (nat actualStart) xs @ items @ drop (nat (actualStart + actualDeleteCount)) xs)"

text \<open>\<^verbatim>\<open>Array.prototype.indexOf\<close>: the first position of the element, or -1.\<close>

fun arrayIndexOf :: "'a list \<Rightarrow> 'a \<Rightarrow> int" where
  "arrayIndexOf [] x = -1"
| "arrayIndexOf (y # ys) x =
     (if y = x then 0 else (let i = arrayIndexOf ys x in if i < 0 then -1 else i + 1))"

text \<open>
  \<^verbatim>\<open>String.prototype.indexOf(pattern)\<close>: the first position at which the pattern
  starts, or -1.
\<close>

fun stringIndexOf :: "string \<Rightarrow> string \<Rightarrow> int" where
  "stringIndexOf [] pat = (if pat = [] then 0 else -1)"
| "stringIndexOf (c # cs) pat =
     (if take (length pat) (c # cs) = pat then 0
      else (let i = stringIndexOf cs pat in if i < 0 then -1 else i + 1))"

text \<open>
  \<^verbatim>\<open>String.prototype.substr(start, length)\<close>: the second argument is a length, not an
  end position. A negative start counts from the end; the length is clamped.
\<close>

definition substr :: "string \<Rightarrow> int \<Rightarrow> int \<Rightarrow> string" where
  "substr s start len =
     (let size = int (length s);
          intStart = (if start < 0 then max (size + start) 0 else min start size);
          intLength = min (max len 0) size;
          intEnd = min (intStart + intLength) size
      in take (nat (intEnd - intStart)) (drop (nat intStart) s))"

definition newline :: string where
  "newline = [CHR 0x0A]"

section \<open>RuleList.js: the rule registry\<close>

text \<open>
  A rule is an object. \<open>rid\<close> is its identity: two rules are the same object
  (\<^verbatim>\<open>===\<close>) exactly when they are equal as values, since every object created gets a
  new \<open>rid\<close>. \<open>isStyleRule\<close> is \<^verbatim>\<open>rule instanceof StyleRule\<close>.
\<close>

record rule =
  rid :: nat
  key :: string
  isStyleRule :: bool
  selector :: "string option"

text \<open>The fields of \<^verbatim>\<open>RuleOptions\<close> that \<^verbatim>\<open>add\<close> reads.\<close>

record rule_options =
  opt_selector :: "string option"
  opt_index :: "int option"

text \<open>
  The collaborators of the registry that are not part of it: \<^verbatim>\<open>createRule\<close> (imported)
  and \<^verbatim>\<open>generateClassName\<close> (from the options) are parameters.
\<close>

record 'd collaborators =
  createRule :: "string \<Rightarrow> 'd \<Rightarrow> rule_options \<Rightarrow> rule"
  generateClassName :: "rule \<Rightarrow> string"

text \<open>
  The registry. The objects \<^verbatim>\<open>map\<close>, \<^verbatim>\<open>raw\<close> and \<^verbatim>\<open>classes\<close> are association lists
  with one entry per own property; \<open>fresh\<close> is the identity the next created object
  gets.
\<close>

record 'd rule_list =
  rmap :: "(string \<times> rule) list"
  raw :: "(string \<times> 'd) list"
  index :: "rule list"
  classes :: "(string \<times> string) list"
  supportEscaping :: bool
  fresh :: nat

definition register :: "'d rule_list \<Rightarrow> rule \<Rightarrow> string option \<Rightarrow> 'd rule_list" where
  "register rl r className =
     (let rl1 = rl\<lparr>rmap := AList.update (key r) r (rmap rl)\<rparr>
      in if isStyleRule r then
           (let rl2 = rl1\<lparr>rmap := AList.update (propName (selector r)) r (rmap rl1)\<rparr>
            in case className of
                 None \<Rightarrow> rl2
               | Some cn \<Rightarrow>
                   if cn \<noteq> [] then rl2\<lparr>classes := AList.update (key r) cn (classes rl2)\<rparr>
                   else rl2)
         else rl1)"

definition unregister :: "'d rule_list \<Rightarrow> rule \<Rightarrow> 'd rule_list" where
  "unregister rl r =
     (let rl1 = rl\<lparr>rmap := AList.delete (key r) (rmap rl)\<rparr>
      in if isStyleRule r then
           rl1\<lparr>rmap := AList.delete (propName (selector r)) (rmap rl1),
               classes := AList.delete (key r) (classes rl1)\<rparr>
         else rl1)"

definition add ::
  "'d collaborators \<Rightarrow> 'd rule_list \<Rightarrow> string \<Rightarrow> 'd \<Rightarrow> rule_options \<Rightarrow> rule \<times> 'd rule_list" where
  "add env rl nm decl options =
     (let options1 =
            (if \<not> truthy (opt_selector options) \<and> truthy (map_of (classes rl) nm)
             then options\<lparr>opt_selector := Some (''.'' @ propName (map_of (classes rl) nm))\<rparr>
             else options);
          rl1 = rl\<lparr>raw := AList.update nm decl (raw rl), fresh := Suc (fresh rl)\<rparr>;
          created = (createRule env nm decl options1)\<lparr>rid := fresh rl\<rparr>;
          className =
            (if \<not> truthy (opt_selector options1) \<and> isStyleRule created
             then Some (generateClassName env created) else None);
          r = (case className of
                 None \<Rightarrow> created
               | Some cn \<Rightarrow> created\<lparr>selector := Some (''.'' @ cn)\<rparr>);
          rl2 = register rl1 r className;
          i = (case opt_index options1 of
                 None \<Rightarrow> int (length (index rl2))
               | Some j \<Rightarrow> j)
      in (r, rl2\<lparr>index := arraySplice (index rl2) i 0 [r]\<rparr>))"

definition get :: "'d rule_list \<Rightarrow> string \<Rightarrow> rule option" where
  "get rl nm = map_of (rmap rl) nm"

definition indexOf :: "'d rule_list \<Rightarrow> rule \<Rightarrow> int" where
  "indexOf rl r = arrayIndexOf (index rl) r"

definition remove :: "'d rule_list \<Rightarrow> rule \<Rightarrow> 'd rule_list" where
  "remove rl r =
     (let rl1 = unregister rl r
      in rl1\<lparr>index := arraySplice (index rl1) (indexOf rl1 r) 1 []\<rparr>)"

text \<open>
  \<^verbatim>\<open>toString\<close>: \<open>ts\<close> is the rule's own \<^verbatim>\<open>toString(options)\<close> for the options given.
  The loop carries \<^verbatim>\<open>str\<close>.
\<close>

fun toString_loop :: "(rule \<Rightarrow> string) \<Rightarrow> rule list \<Rightarrow> string \<Rightarrow> string" where
  "toString_loop ts [] str = str"
| "toString_loop ts (r # rest) str =
     (let css = ts r
      in if css = [] then toString_loop ts rest str
         else toString_loop ts rest ((if str \<noteq> [] then str @ newline else str) @ css))"

definition toString :: "(rule \<Rightarrow> string) \<Rightarrow> 'd rule_list \<Rightarrow> string" where
  "toString ts rl = toString_loop ts (index rl) []"

text \<open>
  \<^verbatim>\<open>Array.prototype.forEach\<close>: the length is read once, the element of each position is
  read when the position is reached, a position beyond the array is passed over. \<open>arr\<close>
  reads the array being walked from the state the callback changes; the second
  component lists the elements the callback was called with.
\<close>

function forEach ::
  "('w \<Rightarrow> 'a list) \<Rightarrow> nat \<Rightarrow> nat \<Rightarrow> ('a \<Rightarrow> 'w \<Rightarrow> 'w) \<Rightarrow> 'w \<times> 'a list \<Rightarrow> 'w \<times> 'a list" where
  "forEach arr len k callback (w, calls) =
     (if k < len then
        (if k < length (arr w)
         then forEach arr len (Suc k) callback (callback (arr w ! k) w, calls @ [arr w ! k])
         else forEach arr len (Suc k) callback (w, calls))
      else (w, calls))"
  by pat_completeness auto
termination
  by (relation "measure (\<lambda>(arr, len, k, callback, s). len - k)") auto

text \<open>
  \<^verbatim>\<open>process\<close>: \<open>onProcessRule\<close> is the plugin hook; it may change the registry in any
  way. \<^verbatim>\<open>this.index.slice(0)\<close> is a new array, which is not the registry's.
\<close>

definition process ::
  "(rule \<Rightarrow> 'd rule_list \<Rightarrow> 'd rule_list) \<Rightarrow> 'd rule_list \<Rightarrow> 'd rule_list \<times> rule list" where
  "process onProcessRule rl =
     (let copy = drop 0 (index rl)
      in forEach (\<lambda>_. copy) (length copy) 0 onProcessRule (rl, []))"

text \<open>The constructor: empty \<^verbatim>\<open>map\<close>, \<^verbatim>\<open>raw\<close> and \<^verbatim>\<open>index\<close>; \<^verbatim>\<open>classes\<close> from the options.\<close>

definition newRuleList :: "(string \<times> string) list \<Rightarrow> bool \<Rightarrow> nat \<Rightarrow> 'd rule_list" where
  "newRuleList cls esc n =
     \<lparr>rmap = [], raw = [], index = [], classes = cls, supportEscaping = esc, fresh = n\<rparr>"

section \<open>The DOM renderer: selectors of native rules\<close>

datatype error = TypeError | NotFoundError | HierarchyRequestError

text \<open>
  A native rule (\<^verbatim>\<open>CSSOMRule\<close>): \<open>cssType\<close> is \<^verbatim>\<open>cssRule.type\<close>, \<open>cssName\<close> is
  \<^verbatim>\<open>cssRule.name\<close>, which some browsers do not have.
\<close>

record css_rule =
  cssType :: nat
  selectorText :: string
  cssName :: "string option"
  cssText :: string

definition extractSelector :: "string \<Rightarrow> int \<Rightarrow> string" where
  "extractSelector text start = substr text start (stringIndexOf text ''{'' - 1)"

definition STYLE_RULE :: nat where
  "STYLE_RULE = 1"

definition KEYFRAMES_RULE :: nat where
  "KEYFRAMES_RULE = 7"

definition getSelector :: "css_rule \<Rightarrow> string" where
  "getSelector cssRule =
     (if cssType cssRule = STYLE_RULE then selectorText cssRule
      else if cssType cssRule = KEYFRAMES_RULE then
        (if truthy (cssName cssRule) then ''@keyframes '' @ propName (cssName cssRule)
         else ''@'' @ extractSelector (cssText cssRule)
                        (stringIndexOf (cssText cssRule) ''keyframes''))
      else extractSelector (cssText cssRule) 0)"

text \<open>
  \<^verbatim>\<open>getUnescapedSelectorsMap\<close>: \<open>engine\<close> is the browser, giving the first native rule
  it makes of a text written into the scratch style element, if it makes one. The
  scratch element is appended to the head and removed again.
\<close>

fun getUnescapedSelectorsMap_loop ::
  "(string \<Rightarrow> css_rule option) \<Rightarrow> rule list \<Rightarrow> (string \<times> string option) list \<Rightarrow>
   error + (string \<times> string option) list" where
  "getUnescapedSelectorsMap_loop engine [] m = Inr m"
| "getUnescapedSelectorsMap_loop engine (r # rest) m =
     (case engine (propName (selector r) @ '' {}'') of
        None \<Rightarrow> Inl TypeError
      | Some cssRule \<Rightarrow>
          getUnescapedSelectorsMap_loop engine rest
            (AList.update (getSelector cssRule) (selector r) m))"

definition getUnescapedSelectorsMap ::
  "(string \<Rightarrow> css_rule option) \<Rightarrow> rule list \<Rightarrow> error + (string \<times> string option) list" where
  "getUnescapedSelectorsMap engine rs = getUnescapedSelectorsMap_loop engine rs []"

text \<open>
  Modelled from the spec: \<^verbatim>\<open>utils/linkRule\<close> is not among the sources. The spec has it
  record "the binding from abstract Rule to native materialized rule"; the bindings are
  kept by rule identity, a later binding of the same rule replacing the earlier.
\<close>

definition linkRule :: "(nat \<times> css_rule) list \<Rightarrow> rule \<Rightarrow> css_rule \<Rightarrow> (nat \<times> css_rule) list" where
  "linkRule bindings r cssRule = AList.update (rid r) cssRule bindings"

text \<open>
  \<^verbatim>\<open>RuleList.link\<close>: the loop carries the bindings made. \<open>unescaped\<close> is the map of
  \<^verbatim>\<open>getUnescapedSelectorsMap\<close> when escaping is supported.
\<close>

fun link_loop ::
  "'d rule_list \<Rightarrow> (string \<times> string option) list option \<Rightarrow> css_rule list \<Rightarrow>
   (nat \<times> css_rule) list \<Rightarrow> (nat \<times> css_rule) list" where
  "link_loop rl unescaped [] bindings = bindings"
| "link_loop rl unescaped (cssRule # rest) bindings =
     (let sel = (case unescaped of
                   None \<Rightarrow> Some (getSelector cssRule)
                 | Some m \<Rightarrow> (case map_of m (getSelector cssRule) of None \<Rightarrow> None | Some v \<Rightarrow> v))
      in case map_of (rmap rl) (propName sel) of
           None \<Rightarrow> link_loop rl unescaped rest bindings
         | Some r \<Rightarrow> link_loop rl unescaped rest (linkRule bindings r cssRule))"

definition link ::
  "(string \<Rightarrow> css_rule option) \<Rightarrow> 'd rule_list \<Rightarrow> css_rule list \<Rightarrow> error + (nat \<times> css_rule) list" where
  "link engine rl cssRules =
     (if supportEscaping rl then
        (case getUnescapedSelectorsMap engine (index rl) of
           Inl e \<Rightarrow> Inl e
         | Inr m \<Rightarrow> Inr (link_loop rl (Some m) cssRules []))
      else Inr (link_loop rl None cssRules []))"

section \<open>The host document\<close>

text \<open>
  Nodes are identified by numbers. The document is the list of the parents with their
  child nodes in order; a node's parent is the first parent whose list holds it, and a
  node in no list has no parent. The text of a style element and its native rule list
  (\<^verbatim>\<open>element.sheet.cssRules\<close>, absent when the element has no native sheet) are kept
  per node: the text is not a child node.
\<close>

type_synonym node = nat

record document =
  head :: node
  tree :: "(node \<times> node list) list"
  nodeType :: "node \<Rightarrow> nat"
  nodeValue :: "node \<Rightarrow> string"
  textContent :: "node \<Rightarrow> string"
  nativeRules :: "node \<Rightarrow> css_rule list option"

definition childNodes :: "document \<Rightarrow> node \<Rightarrow> node list" where
  "childNodes d p = (case map_of (tree d) p of None \<Rightarrow> [] | Some cs \<Rightarrow> cs)"

definition parentNode :: "document \<Rightarrow> node \<Rightarrow> node option" where
  "parentNode d n = find (\<lambda>p. n \<in> set (childNodes d p)) (map fst (tree d))"

definition nextSibling :: "document \<Rightarrow> node \<Rightarrow> node option" where
  "nextSibling d n =
     (case parentNode d n of
        None \<Rightarrow> None
      | Some p \<Rightarrow>
          (case dropWhile (\<lambda>c. c \<noteq> n) (childNodes d p) of
             _ # s # _ \<Rightarrow> Some s
           | _ \<Rightarrow> None))"

definition nextElementSibling :: "document \<Rightarrow> node \<Rightarrow> node option" where
  "nextElementSibling d n =
     (case parentNode d n of
        None \<Rightarrow> None
      | Some p \<Rightarrow> find (\<lambda>c. nodeType d c = 1) (tl (dropWhile (\<lambda>c. c \<noteq> n) (childNodes d p))))"

text \<open>
  \<open>contains d a n\<close>: \<open>a\<close> is \<open>n\<close> or an ancestor of \<open>n\<close>. The walk up the parents is
  bounded by the number of parents the document has.
\<close>

fun ancestorWithin :: "nat \<Rightarrow> document \<Rightarrow> node \<Rightarrow> node \<Rightarrow> bool" where
  "ancestorWithin 0 d a n = (a = n)"
| "ancestorWithin (Suc k) d a n =
     (a = n \<or> (case parentNode d n of None \<Rightarrow> False | Some p \<Rightarrow> ancestorWithin k d a p))"

definition contains :: "document \<Rightarrow> node \<Rightarrow> node \<Rightarrow> bool" where
  "contains d a n = ancestorWithin (length (tree d)) d a n"

definition removeNode :: "document \<Rightarrow> node \<Rightarrow> document" where
  "removeNode d n = d\<lparr>tree := map (\<lambda>(p, cs). (p, removeAll n cs)) (tree d)\<rparr>"

definition placeBefore :: "node list \<Rightarrow> node \<Rightarrow> node option \<Rightarrow> node list" where
  "placeBefore cs n ref =
     (case ref of
        None \<Rightarrow> cs @ [n]
      | Some r \<Rightarrow> takeWhile (\<lambda>c. c \<noteq> r) cs @ n # dropWhile (\<lambda>c. c \<noteq> r) cs)"

text \<open>
  \<^verbatim>\<open>parent.insertBefore(node, ref)\<close> of the DOM: it throws when the node contains the
  parent or when \<open>ref\<close> is not a child of the parent; otherwise the node leaves its old
  place and is put before \<open>ref\<close>, or last when \<open>ref\<close> is null.
\<close>

definition insertBefore :: "document \<Rightarrow> node \<Rightarrow> node \<Rightarrow> node option \<Rightarrow> error + document" where
  "insertBefore d p n ref =
     (if contains d n p then Inl HierarchyRequestError
      else if (case ref of None \<Rightarrow> False | Some r \<Rightarrow> parentNode d r \<noteq> Some p)
      then Inl NotFoundError
      else
        (let ref1 = (if ref = Some n then nextSibling d n else ref);
             d1 = removeNode d n
         in Inr (d1\<lparr>tree := AList.update p (placeBefore (childNodes d1 p) n ref1) (tree d1)\<rparr>)))"

text \<open>
  \<^verbatim>\<open>String.prototype.trim\<close> strips white space and line terminators from both ends. A
  character of the model is a code unit below 256; of these the tab, the line feed, the
  vertical tab, the form feed, the carriage return, the space and the no-break space
  (U+00A0) are stripped.
\<close>

definition isWhiteSpace :: "char \<Rightarrow> bool" where
  "isWhiteSpace c =
     (c \<in> set [CHR 0x09, CHR 0x0A, CHR 0x0B, CHR 0x0C, CHR 0x0D, CHR 0x20, CHR 0xA0])"

definition trim :: "string \<Rightarrow> string" where
  "trim s = rev (dropWhile isWhiteSpace (rev (dropWhile isWhiteSpace s)))"

section \<open>The DOM renderer: where a style element goes\<close>

datatype insertion_point = Marker string | NodeRef node

record priority_options =
  prio_index :: int
  insertionPoint :: "insertion_point option"

text \<open>
  What the renderer reads of a \<^verbatim>\<open>StyleSheet\<close>: \<open>sheet_options\<close> is \<^verbatim>\<open>sheet.options\<close>,
  \<open>renderer_element\<close> is \<^verbatim>\<open>sheet.renderer.element\<close>, \<open>rules\<close> its registry.
\<close>

record 'd sheet =
  attached :: bool
  sheet_options :: priority_options
  renderer_element :: node
  rules :: "'d rule_list"

datatype warning =
  InsertionPointNotFound string
| InsertionPointNotInDom
| CannotInsertRule rule

fun findHigherSheet :: "'d sheet list \<Rightarrow> priority_options \<Rightarrow> 'd sheet option" where
  "findHigherSheet [] opts = None"
| "findHigherSheet (s # registry) opts =
     (if attached s \<and> prio_index (sheet_options s) > prio_index opts \<and>
         insertionPoint (sheet_options s) = insertionPoint opts
      then Some s
      else findHigherSheet registry opts)"

text \<open>The loop of \<^verbatim>\<open>findHighestSheet\<close> runs from the last entry down: here over the
  reversed registry.\<close>

fun findHighestSheet_loop :: "'d sheet list \<Rightarrow> priority_options \<Rightarrow> 'd sheet option" where
  "findHighestSheet_loop [] opts = None"
| "findHighestSheet_loop (s # reversed) opts =
     (if attached s \<and> insertionPoint (sheet_options s) = insertionPoint opts
      then Some s
      else findHighestSheet_loop reversed opts)"

definition findHighestSheet :: "'d sheet list \<Rightarrow> priority_options \<Rightarrow> 'd sheet option" where
  "findHighestSheet registry opts = findHighestSheet_loop (rev registry) opts"

definition findCommentNode :: "document \<Rightarrow> string \<Rightarrow> node option" where
  "findCommentNode d text =
     find (\<lambda>n. nodeType d n = 8 \<and> trim (nodeValue d n) = text) (childNodes d (head d))"

text \<open>
  \<^verbatim>\<open>findPrevNode\<close>: the node found (or null) and the warnings emitted. \<open>registry\<close> is
  \<^verbatim>\<open>sheets.registry\<close>.
\<close>

definition findPrevNode ::
  "document \<Rightarrow> 'd sheet list \<Rightarrow> priority_options \<Rightarrow> node option \<times> warning list" where
  "findPrevNode d registry opts =
     (case (if length registry > 0 then
              (case findHigherSheet registry opts of
                 Some s \<Rightarrow> Some (Some (renderer_element s))
               | None \<Rightarrow>
                   (case findHighestSheet registry opts of
                      Some s \<Rightarrow> Some (nextElementSibling d (renderer_element s))
                    | None \<Rightarrow> None))
            else None) of
        Some returned \<Rightarrow> (returned, [])
      | None \<Rightarrow>
          (case insertionPoint opts of
             Some (Marker text) \<Rightarrow>
               (if text \<noteq> [] then
                  (case findCommentNode d text of
                     Some comment \<Rightarrow> (nextSibling d comment, [])
                   | None \<Rightarrow>
                       (None, if text = ''jss'' then [] else [InsertionPointNotFound text]))
                else (None, []))
           | _ \<Rightarrow> (None, [])))"

text \<open>
  \<^verbatim>\<open>insertStyle\<close>: the error thrown, if any, the document after the call and the warnings
  emitted.
\<close>

definition insertInto ::
  "document \<Rightarrow> node \<Rightarrow> node \<Rightarrow> node option \<Rightarrow> warning list \<Rightarrow>
   error option \<times> document \<times> warning list" where
  "insertInto d p n ref ws =
     (case insertBefore d p n ref of Inl e \<Rightarrow> (Some e, d, ws) | Inr d1 \<Rightarrow> (None, d1, ws))"

definition insertStyle ::
  "document \<Rightarrow> 'd sheet list \<Rightarrow> node \<Rightarrow> priority_options \<Rightarrow>
   error option \<times> document \<times> warning list" where
  "insertStyle d registry style opts =
     (case findPrevNode d registry opts of
        (Some prevNode, ws) \<Rightarrow>
          (case parentNode d prevNode of
             Some p \<Rightarrow> insertInto d p style (Some prevNode) ws
           | None \<Rightarrow> (None, d, ws))
      | (None, ws) \<Rightarrow>
          (case insertionPoint opts of
             Some (NodeRef ip) \<Rightarrow>
               (case parentNode d ip of
                  Some p \<Rightarrow> insertInto d p style (nextSibling d ip) ws
                | None \<Rightarrow> (None, d, ws @ [InsertionPointNotInDom]))
           | _ \<Rightarrow> insertInto d (head d) style None ws))"

section \<open>The DOM renderer: the class\<close>

text \<open>
  The browser as far as the renderer needs it: the native rule list it makes of a
  style element's text, and the native rule it makes of one rule's text (none when it
  rejects the text).
\<close>

record engine =
  parseSheet :: "string \<Rightarrow> css_rule list"
  parseRule :: "string \<Rightarrow> css_rule option"

record 'd dom_renderer =
  element :: node
  sheet :: "'d sheet option"
  hasInsertedRules :: bool

text \<open>
  Modelled from the spec: \<^verbatim>\<open>StyleSheet.toString\<close> is not among the sources. Deploy
  writes "the Rule Registry's serialization": the sheet's text is that of its rules.
\<close>

definition sheetToString :: "(rule \<Rightarrow> string) \<Rightarrow> 'd sheet \<Rightarrow> string" where
  "sheetToString ts s = toString ts (rules s)"

text \<open>Assigning \<^verbatim>\<open>element.textContent\<close>: the browser parses the text anew when the
  element has a native sheet.\<close>

definition setTextContent :: "engine \<Rightarrow> document \<Rightarrow> node \<Rightarrow> string \<Rightarrow> document" where
  "setTextContent eng d n text =
     d\<lparr>textContent := (textContent d)(n := text),
       nativeRules := (nativeRules d)(n := map_option (\<lambda>_. parseSheet eng text) (nativeRules d n))\<rparr>"

definition deploy ::
  "engine \<Rightarrow> (rule \<Rightarrow> string) \<Rightarrow> 'd dom_renderer \<Rightarrow> document \<Rightarrow> document" where
  "deploy eng ts rn d =
     (case sheet rn of
        None \<Rightarrow> d
      | Some s \<Rightarrow> setTextContent eng d (element rn) (newline @ sheetToString ts s @ newline))"

text \<open>
  The methods give the error thrown, if any, and the renderer, the document and the
  warnings as the call leaves them.
\<close>

definition attach ::
  "engine \<Rightarrow> (rule \<Rightarrow> string) \<Rightarrow> 'd sheet list \<Rightarrow> 'd dom_renderer \<Rightarrow> document \<Rightarrow>
   error option \<times> 'd dom_renderer \<times> document \<times> warning list" where
  "attach eng ts registry rn d =
     (case (parentNode d (element rn), sheet rn) of
        (None, Some s) \<Rightarrow>
          (let (rn1, d1) =
                 (if hasInsertedRules rn
                  then (rn\<lparr>hasInsertedRules := False\<rparr>, deploy eng ts rn d)
                  else (rn, d))
           in case insertStyle d1 registry (element rn1) (sheet_options s) of
                (e, d2, ws) \<Rightarrow> (e, rn1, d2, ws))
      | _ \<Rightarrow> (None, rn, d, []))"

definition detach ::
  "'d dom_renderer \<Rightarrow> document \<Rightarrow> error option \<times> 'd dom_renderer \<times> document" where
  "detach rn d =
     (case parentNode d (element rn) of
        None \<Rightarrow> (Some TypeError, rn, d)
      | Some p \<Rightarrow> (None, rn, removeNode d (element rn)))"

text \<open>
  The native \<^verbatim>\<open>CSSStyleSheet.insertRule(text, index)\<close>: it throws (here: gives nothing)
  on an index outside the list and on a text the browser rejects.
\<close>

definition nativeInsertRule :: "engine \<Rightarrow> css_rule list \<Rightarrow> string \<Rightarrow> int \<Rightarrow> css_rule list option" where
  "nativeInsertRule eng cssRules str i =
     (if i < 0 \<or> int (length cssRules) < i then None
      else case parseRule eng str of
             None \<Rightarrow> None
           | Some c \<Rightarrow> Some (take (nat i) cssRules @ c # drop (nat i) cssRules))"

text \<open>
  \<^verbatim>\<open>insertRule\<close>: the value returned is the native rule, or nothing for \<^verbatim>\<open>false\<close>; the
  index argument may be left out.
\<close>

definition insertRule ::
  "engine \<Rightarrow> (rule \<Rightarrow> string) \<Rightarrow> 'd dom_renderer \<Rightarrow> document \<Rightarrow> rule \<Rightarrow> int option \<Rightarrow>
   (error + css_rule option) \<times> 'd dom_renderer \<times> document \<times> warning list" where
  "insertRule eng ts rn d r idx =
     (case nativeRules d (element rn) of
        None \<Rightarrow> (Inl TypeError, rn, d, [])
      | Some cssRules \<Rightarrow>
          (let str = ts r;
               i = (case idx of
                      None \<Rightarrow> int (length cssRules)
                    | Some j \<Rightarrow> if j = 0 then int (length cssRules) else j)
           in if str = [] then (Inr None, rn, d, [])
              else
                (case nativeInsertRule eng cssRules str i of
                   None \<Rightarrow> (Inr None, rn, d, [CannotInsertRule r])
                 | Some cssRules1 \<Rightarrow>
                     (Inr (Some (cssRules1 ! nat i)),
                      rn\<lparr>hasInsertedRules := True\<rparr>,
                      d\<lparr>nativeRules := (nativeRules d)(element rn \<mapsto> cssRules1)\<rparr>,
                      []))))"

section \<open>Notions used in the statements\<close>

text \<open>Joining texts with a separator between neighbours.\<close>

fun joinWith :: "string \<Rightarrow> string list \<Rightarrow> string" where
  "joinWith sep [] = []"
| "joinWith sep [p] = p"
| "joinWith sep (p # q # ps) = p @ sep @ joinWith sep (q # ps)"



text \<open>Sequences of \<^verbatim>\<open>add\<close> and \<^verbatim>\<open>remove\<close> calls.\<close>

datatype 'd operation = Add string 'd rule_options | Remove rule

fun perform :: "'d collaborators \<Rightarrow> 'd rule_list \<Rightarrow> 'd operation \<Rightarrow> 'd rule_list" where
  "perform env rl (Add nm decl opts) = snd (add env rl nm decl opts)"
| "perform env rl (Remove r) = remove rl r"

fun performAll :: "'d collaborators \<Rightarrow> 'd rule_list \<Rightarrow> 'd operation list \<Rightarrow> 'd rule_list" where
  "performAll env rl [] = rl"
| "performAll env rl (opn # ops) = performAll env (perform env rl opn) ops"




section \<open>Example inputs\<close>

text \<open>
  A rule factory that makes a style rule of every name not starting with an at sign,
  and a class name generator that numbers the classes by the rule's identity.
\<close>

definition exampleEnv :: "string collaborators" where
  "exampleEnv =
     \<lparr>createRule = (\<lambda>nm decl opts.
        \<lparr>rid = 0, key = nm, isStyleRule = (take 1 nm \<noteq> ''@''), selector = opt_selector opts\<rparr>),
      generateClassName = (\<lambda>r. key r @ ''-'' @ replicate (Suc (rid r)) (CHR ''i''))\<rparr>"

definition noOptions :: rule_options where
  "noOptions = \<lparr>opt_selector = None, opt_index = None\<rparr>"

definition ruleA :: rule where
  "ruleA = \<lparr>rid = 0, key = ''a'', isStyleRule = True, selector = Some ''.a-i''\<rparr>"

definition ruleB :: rule where
  "ruleB = \<lparr>rid = 1, key = ''b'', isStyleRule = True, selector = Some ''.b-ii''\<rparr>"

definition exampleAB :: "string rule_list" where
  "exampleAB =
     performAll exampleEnv (newRuleList [] False 0)
       [Add ''a'' ''color:red'' noOptions, Add ''b'' ''color:blue'' noOptions]"



definition exampleCss :: "rule \<Rightarrow> string" where
  "exampleCss r = (if key r = ''a'' then [] else ''color:red'')"

definition pulseRule :: rule where
  "pulseRule = \<lparr>rid = 0, key = ''@keyframes pulse'', isStyleRule = False, selector = None\<rparr>"

definition pulseRegistry :: "string rule_list" where
  "pulseRegistry =
     performAll exampleEnv (newRuleList [] False 0) [Add ''@keyframes pulse'' ''0% {}'' noOptions]"

definition pulseNative :: css_rule where
  "pulseNative =
     \<lparr>cssType = 7, selectorText = [], cssName = None, cssText = ''@keyframes pulse { ... }''\<rparr>"

definition noEngine :: "string \<Rightarrow> css_rule option" where
  "noEngine text = None"

text \<open>
  A document: the root 0 with the head 1 and the body 2; in the head the style element 10
  of an attached sheet and a comment 11. The style element 12 is in no place yet.
\<close>

definition oldNative :: css_rule where
  "oldNative = \<lparr>cssType = 1, selectorText = ''.a-i'', cssName = None, cssText = ''.a-i { }''\<rparr>"

definition newNative :: css_rule where
  "newNative = \<lparr>cssType = 1, selectorText = ''.b-ii'', cssName = None, cssText = ''color:red''\<rparr>"

definition exampleDoc :: document where
  "exampleDoc =
     \<lparr>head = 1, tree = [(0, [1, 2]), (1, [10, 11])],
      nodeType = (\<lambda>n. if n = 11 then 8 else 1),
      nodeValue = (\<lambda>n. if n = 11 then '' other '' else []),
      textContent = (\<lambda>n. []),
      nativeRules = (\<lambda>n. if n = 10 then Some [oldNative] else None)\<rparr>"

definition fooOptions :: "int \<Rightarrow> priority_options" where
  "fooOptions i = \<lparr>prio_index = i, insertionPoint = Some (Marker ''foo'')\<rparr>"

definition attachedSheet :: "string sheet" where
  "attachedSheet =
     \<lparr>attached = True, sheet_options = fooOptions 5, renderer_element = 10, rules = exampleAB\<rparr>"

definition newSheet :: "string sheet" where
  "newSheet =
     \<lparr>attached = False, sheet_options = fooOptions 1, renderer_element = 12, rules = exampleAB\<rparr>"

definition exampleEngine :: engine where
  "exampleEngine =
     \<lparr>parseSheet = (\<lambda>text. []),
      parseRule = (\<lambda>text. if text = [] then None
         else Some \<lparr>cssType = 1, selectorText = ''.b-ii'', cssName = None, cssText = text\<rparr>)\<rparr>"

definition newRenderer :: "string dom_renderer" where
  "newRenderer = \<lparr>element = 12, sheet = Some newSheet, hasInsertedRules = True\<rparr>"

definition attachedRenderer :: "string dom_renderer" where
  "attachedRenderer = \<lparr>element = 10, sheet = Some attachedSheet, hasInsertedRules = False\<rparr>"

text \<open>
  A sheet that is attached while its element 20 is in no place of the document.
\<close>

definition ghostSheet :: "string sheet" where
  "ghostSheet =
     \<lparr>attached = True, sheet_options = fooOptions 5, renderer_element = 20, rules = exampleAB\<rparr>"

text \<open>
  A head with the elements of three attached sheets, 14 of index 0, 10 of index 5 and 13
  of index 7, and the comment 11; the sheet of index 7 was registered before the sheet
  of index 5.
\<close>

definition crowdedDoc :: document where
  "crowdedDoc =
     \<lparr>head = 1, tree = [(0, [1, 2]), (1, [14, 10, 11, 13])],
      nodeType = (\<lambda>n. if n = 11 then 8 else 1),
      nodeValue = (\<lambda>n. if n = 11 then '' other '' else []),
      textContent = (\<lambda>n. []),
      nativeRules = (\<lambda>n. None)\<rparr>"

definition lowSheet :: "string sheet" where
  "lowSheet =
     \<lparr>attached = True, sheet_options = fooOptions 0, renderer_element = 14, rules = exampleAB\<rparr>"

definition sevenSheet :: "string sheet" where
  "sevenSheet =
     \<lparr>attached = True, sheet_options = fooOptions 7, renderer_element = 13, rules = exampleAB\<rparr>"

text \<open>The renderer of the attached sheet after a rule was inserted natively, and the
  document after that renderer's element was detached.\<close>

definition afterInsertRenderer :: "string dom_renderer" where
  "afterInsertRenderer =
     fst (snd (insertRule exampleEngine exampleCss attachedRenderer exampleDoc ruleB None))"

definition detachedDoc :: document where
  "detachedDoc =
     snd (snd (detach afterInsertRenderer
       (fst (snd (snd (insertRule exampleEngine exampleCss attachedRenderer exampleDoc ruleB None))))))"

section \<open>Arrays\<close>

declare forEach.simps [simp del]





lemma arrayIndexOf_absent: "x \<notin> set xs \<Longrightarrow> arrayIndexOf xs x = - 1"
  by (induction xs) (auto simp add: Let_def)





lemma arraySplice_remove_absent:
  assumes "x \<notin> set xs"
  shows "arraySplice xs (arrayIndexOf xs x) 1 [] = butlast xs"
proof (cases "xs = []")
  case True
  then show ?thesis by (simp add: arraySplice_def)
next
  case False
  then have len: "0 < length xs" by simp
  have "nat (int (length xs) - 1) = length xs - 1"
    using len by linarith
  then have "arraySplice xs (- 1) 1 [] = take (length xs - 1) xs"
    using len by (simp add: arraySplice_def Let_def)
  then show ?thesis
    by (simp add: arrayIndexOf_absent [OF assms] butlast_conv_take)
qed












lemma remove_absent_index:
  assumes "r \<notin> set (index rl)"
  shows "index (remove rl r) = butlast (index rl)"
proof -
  have "index (unregister rl r) = index rl"
    by (simp add: unregister_def Let_def)
  then show ?thesis
    using arraySplice_remove_absent [OF assms]
    by (simp add: remove_def Let_def indexOf_def)
qed

section \<open>The registry under add and remove\<close>





section \<open>Removing a rule that is not in the registry\<close>

text \<open>
  C4: removing a rule that is not in the ordered sequence is not a no-op. The index
  lookup gives -1 and \<^verbatim>\<open>splice(-1, 1)\<close> takes the last rule out of the sequence.
\<close>

theorem remove_absent_drops_last:
  "r \<notin> set (index rl) \<Longrightarrow> index (remove rl r) = butlast (index rl)"
  by (rule remove_absent_index)

text \<open>
  Removing the first of two rules twice: the second call takes the other rule out of
  the sequence and leaves it in the map.
\<close>

theorem remove_absent_drops_last_witness:
  "ruleA \<notin> set (index (remove exampleAB ruleA)) \<and>
   index (remove exampleAB ruleA) = [ruleB] \<and>
   index (remove (remove exampleAB ruleA) ruleA) = [] \<and>
   get (remove (remove exampleAB ruleA) ruleA) ''b'' = Some ruleB"
proof -
  have h: "ruleA \<notin> set (index (remove exampleAB ruleA))" by code_simp
  have one: "index (remove exampleAB ruleA) = [ruleB]" by code_simp
  have kept: "get (remove (remove exampleAB ruleA) ruleA) ''b'' = Some ruleB" by code_simp
  show ?thesis
    using h one kept remove_absent_drops_last [OF h] by simp
qed

section \<open>Serialization\<close>

lemma joinWith_Cons: "joinWith sep (p # ps) = p @ concat (map ((@) sep) ps)"
  by (induction ps arbitrary: p) simp_all

lemma toString_loop_eq:
  "toString_loop ts rs str =
     (if str = [] then joinWith newline (filter (\<lambda>css. css \<noteq> []) (map ts rs))
      else str @ concat (map ((@) newline) (filter (\<lambda>css. css \<noteq> []) (map ts rs))))"
proof (induction rs arbitrary: str)
  case Nil
  show ?case by simp
next
  case (Cons r rest)
  show ?case
    by (simp add: Cons.IH Let_def joinWith_Cons)
qed

text \<open>
  C6: \<^verbatim>\<open>toString\<close> is the serializations of the rules in the order of the sequence,
  those that are empty left out, joined by one newline between neighbours.
\<close>

theorem toString_joins_nonempty:
  "toString ts rl = joinWith newline (filter (\<lambda>css. css \<noteq> []) (map ts (index rl)))"
  by (simp add: toString_def toString_loop_eq)

text \<open>
  The example of the claim: of the rules A with an empty serialization and B with
  \<^verbatim>\<open>color:red\<close>, the text is B's serialization and nothing else.
\<close>

theorem toString_joins_nonempty_witness:
  "exampleCss ruleA = [] \<and> exampleCss ruleB = ''color:red'' \<and> index exampleAB = [ruleA, ruleB] \<and>
   toString exampleCss exampleAB = ''color:red''"
proof -
  have a: "exampleCss ruleA = []" and b: "exampleCss ruleB = ''color:red''" by code_simp+
  have ix: "index exampleAB = [ruleA, ruleB]" by code_simp
  show ?thesis
    using a b ix toString_joins_nonempty [of exampleCss exampleAB] by simp
qed

section \<open>Processing\<close>

lemma forEach_snapshot:
  "k \<le> length xs \<Longrightarrow>
   forEach (\<lambda>_. xs) (length xs) k h (w, calls) = (fold h (drop k xs) w, calls @ drop k xs)"
proof (induction "length xs - k" arbitrary: k w calls)
  case 0
  then show ?case by (simp add: forEach.simps)
next
  case (Suc n)
  then have lt: "k < length xs" by simp
  have d: "drop k xs = xs ! k # drop (Suc k) xs"
    using lt by (simp add: Cons_nth_drop_Suc)
  have "forEach (\<lambda>_. xs) (length xs) k h (w, calls) =
        forEach (\<lambda>_. xs) (length xs) (Suc k) h (h (xs ! k) w, calls @ [xs ! k])"
    using lt by (simp add: forEach.simps [of _ _ k])
  also have "\<dots> = (fold h (drop (Suc k) xs) (h (xs ! k) w), (calls @ [xs ! k]) @ drop (Suc k) xs)"
    using Suc lt by (intro Suc.hyps(1)) simp_all
  finally show ?case by (simp add: d)
qed

text \<open>
  C7: whatever the hook does to the registry, \<^verbatim>\<open>process\<close> calls it once on each rule
  that was in the ordered sequence when \<^verbatim>\<open>process\<close> was called, in the order of the
  sequence: the calls are the sequence as it was, and the registry afterwards is the
  hook applied rule by rule.
\<close>

theorem process_walks_snapshot:
  "process h rl = (fold h (index rl) rl, index rl)"
  using forEach_snapshot [of 0 "index rl" h rl "[]"]
  by (simp add: process_def Let_def)

text \<open>
  A hook that removes the rule it is called with: both rules are visited though the
  sequence is empty at the end.
\<close>

theorem process_walks_snapshot_witness:
  "snd (process (\<lambda>r rl. remove rl r) exampleAB) = [ruleA, ruleB] \<and>
   index (fst (process (\<lambda>r rl. remove rl r) exampleAB)) = []"
proof -
  have ix: "index exampleAB = [ruleA, ruleB]" by code_simp
  have "index (fold (\<lambda>r rl. remove rl r) [ruleA, ruleB] exampleAB) = []" by code_simp
  then show ?thesis
    by (simp add: process_walks_snapshot ix)
qed

section \<open>Linking a keyframes rule without a name\<close>

text \<open>
  C3: for a keyframes rule without \<^verbatim>\<open>name\<close> the selector is cut out of the rule's
  text with \<^verbatim>\<open>substr\<close>, whose second argument is a length: from the text
  \<^verbatim>\<open>@keyframes pulse { ... }\<close> the code gets the selector with a space at its end, which
  is no name of the map, and the rule stays unbound. With \<^verbatim>\<open>name\<close> present the same
  rule is bound to the registry's rule.
\<close>

theorem keyframes_without_name_not_linked:
  "get pulseRegistry ''@keyframes pulse'' = Some pulseRule \<and>
   getSelector pulseNative = ''@keyframes pulse '' \<and>
   link noEngine pulseRegistry [pulseNative] = Inr [] \<and>
   link noEngine pulseRegistry [pulseNative\<lparr>cssName := Some ''pulse''\<rparr>] =
     Inr [(rid pulseRule, pulseNative\<lparr>cssName := Some ''pulse''\<rparr>)]"
  by code_simp

section \<open>The host document: inserting and removing\<close>

lemma find_unique:
  "p \<in> set xs \<Longrightarrow> (\<forall>q \<in> set xs. P q \<longleftrightarrow> q = p) \<Longrightarrow> find P xs = Some p"
  by (induction xs) auto

lemma childNodes_removeNode:
  "childNodes (removeNode d n) q = removeAll n (childNodes d q)"
proof -
  have "map_of (map (\<lambda>(p, cs). (p, removeAll n cs)) al) q = map_option (removeAll n) (map_of al q)" for al
    by (induction al) auto
  then show ?thesis
    by (simp add: childNodes_def removeNode_def split: option.splits)
qed

lemma parentNode_removeNode: "parentNode (removeNode d n) n = None"
  by (simp add: parentNode_def childNodes_removeNode find_None_iff)

lemma parentNode_Some: "parentNode d n = Some p \<Longrightarrow> n \<in> set (childNodes d p) \<and> p \<in> fst ` set (tree d)"
  by (auto simp: parentNode_def find_Some_iff)

lemma parentNode_None: "parentNode d n = None \<Longrightarrow> n \<notin> set (childNodes d q)"
proof (cases "map_of (tree d) q")
  case None
  then show ?thesis by (simp add: childNodes_def)
next
  case (Some cs)
  assume "parentNode d n = None"
  moreover have "q \<in> set (map fst (tree d))"
    using Some by (metis map_of_eq_None_iff option.distinct(1) set_map)
  ultimately show ?thesis by (auto simp: parentNode_def find_None_iff)
qed

lemma placeBefore_mem: "n \<in> set (placeBefore cs n ref)"
  by (simp add: placeBefore_def split: option.splits)

lemma insertBefore_result:
  assumes "insertBefore d p n ref = Inr d'"
  shows "parentNode d' n = Some p"
    and "childNodes d' p =
           placeBefore (removeAll n (childNodes d p)) n (if ref = Some n then nextSibling d n else ref)"
    and "q \<noteq> p \<Longrightarrow> childNodes d' q = removeAll n (childNodes d q)"
    and "head d' = head d" and "textContent d' = textContent d" and "nativeRules d' = nativeRules d"
proof -
  let ?ref1 = "if ref = Some n then nextSibling d n else ref"
  let ?d1 = "removeNode d n"
  let ?cs = "placeBefore (childNodes ?d1 p) n ?ref1"
  have d': "d' = ?d1\<lparr>tree := AList.update p ?cs (tree ?d1)\<rparr>"
    using assms by (simp add: insertBefore_def Let_def split: if_splits)
  have cn: "childNodes d' q = (if q = p then ?cs else removeAll n (childNodes d q))" for q
    unfolding d' by (simp add: childNodes_def [of "_\<lparr>tree := _\<rparr>"] update_conv' childNodes_removeNode [symmetric] childNodes_def [of ?d1])
  show "childNodes d' p = placeBefore (removeAll n (childNodes d p)) n ?ref1"
    by (simp add: cn childNodes_removeNode)
  show "q \<noteq> p \<Longrightarrow> childNodes d' q = removeAll n (childNodes d q)"
    by (simp add: cn)
  show "head d' = head d" "textContent d' = textContent d" "nativeRules d' = nativeRules d"
    unfolding d' by (simp_all add: removeNode_def)
  have keys: "p \<in> set (map fst (tree d'))"
    unfolding d' by (simp add: dom_update)
  have "\<forall>q \<in> set (map fst (tree d')). (n \<in> set (childNodes d' q)) \<longleftrightarrow> q = p"
    by (auto simp: cn placeBefore_mem)
  then show "parentNode d' n = Some p"
    unfolding parentNode_def using keys by (intro find_unique) auto
qed

section \<open>Where a style element goes\<close>

lemma findHigherSheet_first:
  assumes "\<forall>x \<in> set before. \<not> (attached x \<and> prio_index opts < prio_index (sheet_options x) \<and>
             insertionPoint (sheet_options x) = insertionPoint opts)"
    and "attached s \<and> prio_index opts < prio_index (sheet_options s) \<and>
         insertionPoint (sheet_options s) = insertionPoint opts"
  shows "findHigherSheet (before @ s # after) opts = Some s"
  using assms by (induction before) auto

lemma findHigherSheet_none:
  "\<forall>x \<in> set registry. \<not> (attached x \<and> insertionPoint (sheet_options x) = insertionPoint opts) \<Longrightarrow>
   findHigherSheet registry opts = None"
  by (induction registry) auto

lemma findHighestSheet_loop_none:
  "\<forall>x \<in> set registry. \<not> (attached x \<and> insertionPoint (sheet_options x) = insertionPoint opts) \<Longrightarrow>
   findHighestSheet_loop registry opts = None"
  by (induction registry) auto

lemma findHighestSheet_none:
  "\<forall>x \<in> set registry. \<not> (attached x \<and> insertionPoint (sheet_options x) = insertionPoint opts) \<Longrightarrow>
   findHighestSheet registry opts = None"
  using findHighestSheet_loop_none [of "rev registry" opts] by (simp add: findHighestSheet_def)

lemma placeBefore_present:
  assumes "r \<in> set cs"
  shows "\<exists>pre post. cs = pre @ r # post \<and> placeBefore cs n (Some r) = pre @ n # r # post"
proof -
  have "dropWhile (\<lambda>c. c \<noteq> r) cs \<noteq> []"
    using assms by (auto simp: dropWhile_eq_Nil_conv)
  then obtain post where dw: "dropWhile (\<lambda>c. c \<noteq> r) cs = r # post"
    using hd_dropWhile [of "\<lambda>c. c \<noteq> r" cs] by (cases "dropWhile (\<lambda>c. c \<noteq> r) cs") auto
  have "cs = takeWhile (\<lambda>c. c \<noteq> r) cs @ r # post"
    using takeWhile_dropWhile_id [of "\<lambda>c. c \<noteq> r" cs] dw by simp
  moreover have "placeBefore cs n (Some r) = takeWhile (\<lambda>c. c \<noteq> r) cs @ n # r # post"
    by (simp add: placeBefore_def dw)
  ultimately show ?thesis by blast
qed


text \<open>
  C2, as the code has it: when the first sheet of the registry, in the order of
  registration, that is attached, has an index above the requested one and has the same
  insertion point (both may be absent) is \<open>s\<close>, then \<^verbatim>\<open>findHigherSheet\<close> finds \<open>s\<close>,
  whatever sheets follow it. When the element of \<open>s\<close> has a parent that the new style
  element does not contain, \<^verbatim>\<open>insertStyle\<close> puts the new element into that parent,
  immediately before the element of \<open>s\<close>; when the element of \<open>s\<close> has no parent,
  \<^verbatim>\<open>insertStyle\<close> inserts nothing and emits no warning. The new element is in no place
  yet, as \<^verbatim>\<open>attach\<close> has checked.
\<close>

theorem style_goes_before_first_higher_sheet:
  assumes reg: "registry = before @ s # after"
    and first: "\<forall>x \<in> set before. \<not> (attached x \<and> prio_index opts < prio_index (sheet_options x) \<and>
             insertionPoint (sheet_options x) = insertionPoint opts)"
    and higher: "attached s \<and> prio_index opts < prio_index (sheet_options s) \<and>
         insertionPoint (sheet_options s) = insertionPoint opts"
    and new: "parentNode d style = None"
  shows "findHigherSheet registry opts = Some s \<and>
         (\<forall>p. parentNode d (renderer_element s) = Some p \<and> \<not> contains d style p \<longrightarrow>
            (\<exists>d' pre post. insertStyle d registry style opts = (None, d', []) \<and>
               childNodes d p = pre @ renderer_element s # post \<and>
               childNodes d' p = pre @ style # renderer_element s # post \<and>
               parentNode d' style = Some p)) \<and>
         (parentNode d (renderer_element s) = None \<longrightarrow>
            insertStyle d registry style opts = (None, d, []))"
proof -
  let ?el = "renderer_element s"
  have found: "findHigherSheet registry opts = Some s"
    unfolding reg by (rule findHigherSheet_first [OF first higher])
  have nonempty: "registry \<noteq> []" using reg by simp
  have prev: "findPrevNode d registry opts = (Some ?el, [])"
    by (simp add: findPrevNode_def found nonempty)
  have placed: "\<exists>d' pre post. insertStyle d registry style opts = (None, d', []) \<and>
        childNodes d p = pre @ ?el # post \<and> childNodes d' p = pre @ style # ?el # post \<and>
        parentNode d' style = Some p"
    if par: "parentNode d ?el = Some p" and anc: "\<not> contains d style p" for p
  proof -
    have ne: "?el \<noteq> style" using par new by auto
    have "\<exists>d'. insertBefore d p style (Some ?el) = Inr d'"
      using anc par by (simp add: insertBefore_def Let_def)
    then obtain d' where ib: "insertBefore d p style (Some ?el) = Inr d'" by blast
    have ins: "insertStyle d registry style opts = (None, d', [])"
      by (simp add: insertStyle_def prev par insertInto_def ib)
    have same: "removeAll style (childNodes d p) = childNodes d p"
      using parentNode_None [OF new, of p] by simp
    have cs': "childNodes d' p = placeBefore (childNodes d p) style (Some ?el)"
      using insertBefore_result(2) [OF ib] ne by (simp add: same)
    have "?el \<in> set (childNodes d p)" using parentNode_Some [OF par] by simp
    then obtain pre post where "childNodes d p = pre @ ?el # post"
      "placeBefore (childNodes d p) style (Some ?el) = pre @ style # ?el # post"
      using placeBefore_present by blast
    then show ?thesis
      using ins cs' insertBefore_result(1) [OF ib] by auto
  qed
  have skipped: "insertStyle d registry style opts = (None, d, [])"
    if "parentNode d ?el = None"
    using that by (simp add: insertStyle_def prev)
  have before_it: "\<forall>p. parentNode d ?el = Some p \<and> \<not> contains d style p \<longrightarrow>
        (\<exists>d' pre post. insertStyle d registry style opts = (None, d', []) \<and>
           childNodes d p = pre @ ?el # post \<and> childNodes d' p = pre @ style # ?el # post \<and>
           parentNode d' style = Some p)"
  proof (intro allI impI)
    fix p
    assume "parentNode d ?el = Some p \<and> \<not> contains d style p"
    then show "\<exists>d' pre post. insertStyle d registry style opts = (None, d', []) \<and>
           childNodes d p = pre @ ?el # post \<and> childNodes d' p = pre @ style # ?el # post \<and>
           parentNode d' style = Some p"
      by (elim conjE) (rule placed)
  qed
  have nowhere: "parentNode d ?el = None \<longrightarrow> insertStyle d registry style opts = (None, d, [])"
    using skipped by simp
  show ?thesis
    using found before_it nowhere by simp
qed

text \<open>
  Two candidates: the sheet of index 7 was registered before the sheet of index 5, after
  a sheet of index 0. The request of index 1 finds the sheet of index 7 and the new
  element 12 goes before its element 13, at the end of the head. With the attached sheet
  whose element is in no place, nothing is inserted.
\<close>

theorem style_goes_before_first_higher_sheet_witness:
  "findHigherSheet [lowSheet, sevenSheet, attachedSheet, newSheet] (fooOptions 1) = Some sevenSheet \<and>
   fst (insertStyle crowdedDoc [lowSheet, sevenSheet, attachedSheet, newSheet] 12 (fooOptions 1)) = None \<and>
   parentNode (fst (snd (insertStyle crowdedDoc [lowSheet, sevenSheet, attachedSheet, newSheet] 12
     (fooOptions 1)))) 12 = Some 1 \<and>
   childNodes (fst (snd (insertStyle crowdedDoc [lowSheet, sevenSheet, attachedSheet, newSheet] 12
     (fooOptions 1)))) 1 = [14, 10, 11, 12, 13] \<and>
   insertStyle exampleDoc [ghostSheet, newSheet] 12 (fooOptions 1) = (None, exampleDoc, [])"
proof -
  have reg: "[lowSheet, sevenSheet, attachedSheet, newSheet] =
      [lowSheet] @ sevenSheet # [attachedSheet, newSheet]" by simp
  have first: "\<forall>x \<in> set [lowSheet]. \<not> (attached x \<and>
      prio_index (fooOptions 1) < prio_index (sheet_options x) \<and>
      insertionPoint (sheet_options x) = insertionPoint (fooOptions 1))" by code_simp
  have higher: "attached sevenSheet \<and>
      prio_index (fooOptions 1) < prio_index (sheet_options sevenSheet) \<and>
      insertionPoint (sheet_options sevenSheet) = insertionPoint (fooOptions 1)" by code_simp
  have new: "parentNode crowdedDoc 12 = None" by code_simp
  have par: "parentNode crowdedDoc (renderer_element sevenSheet) = Some 1 \<and>
      \<not> contains crowdedDoc 12 1" by code_simp
  have placed: "childNodes (fst (snd (insertStyle crowdedDoc
      [lowSheet, sevenSheet, attachedSheet, newSheet] 12 (fooOptions 1)))) 1 = [14, 10, 11, 12, 13]"
    by code_simp
  have crowded: "findHigherSheet [lowSheet, sevenSheet, attachedSheet, newSheet] (fooOptions 1) =
        Some sevenSheet \<and>
      (\<exists>d' pre post. insertStyle crowdedDoc [lowSheet, sevenSheet, attachedSheet, newSheet] 12
          (fooOptions 1) = (None, d', []) \<and>
         childNodes crowdedDoc 1 = pre @ renderer_element sevenSheet # post \<and>
         childNodes d' 1 = pre @ 12 # renderer_element sevenSheet # post \<and>
         parentNode d' 12 = Some 1)"
    using style_goes_before_first_higher_sheet [OF reg first higher new] par by blast
  have reg2: "[ghostSheet, newSheet] = [] @ ghostSheet # [newSheet]" by simp
  have first2: "\<forall>x \<in> set []. \<not> (attached x \<and>
      prio_index (fooOptions 1) < prio_index (sheet_options x) \<and>
      insertionPoint (sheet_options x) = insertionPoint (fooOptions 1))" by simp
  have higher2: "attached ghostSheet \<and>
      prio_index (fooOptions 1) < prio_index (sheet_options ghostSheet) \<and>
      insertionPoint (sheet_options ghostSheet) = insertionPoint (fooOptions 1)" by code_simp
  have new2: "parentNode exampleDoc 12 = None" by code_simp
  have gone: "parentNode exampleDoc (renderer_element ghostSheet) = None" by code_simp
  have ghost: "insertStyle exampleDoc [ghostSheet, newSheet] 12 (fooOptions 1) = (None, exampleDoc, [])"
    using style_goes_before_first_higher_sheet [OF reg2 first2 higher2 new2] gone by blast
  show ?thesis using crowded placed ghost by auto
qed

text \<open>
  C2 as stated fails: the first attached sheet with a higher index and the same
  insertion point is found, its element has no parent, and the new element 12 is
  inserted nowhere: it has no parent afterwards and the head is as it was.
\<close>

theorem higher_sheet_without_parent_counterexample:
  "findHigherSheet [ghostSheet, newSheet] (fooOptions 1) = Some ghostSheet \<and>
   attached ghostSheet \<and> prio_index (fooOptions 1) < prio_index (sheet_options ghostSheet) \<and>
   insertionPoint (sheet_options ghostSheet) = insertionPoint (fooOptions 1) \<and>
   fst (insertStyle exampleDoc [ghostSheet, newSheet] 12 (fooOptions 1)) = None \<and>
   parentNode (fst (snd (insertStyle exampleDoc [ghostSheet, newSheet] 12 (fooOptions 1)))) 12 = None \<and>
   childNodes (fst (snd (insertStyle exampleDoc [ghostSheet, newSheet] 12 (fooOptions 1)))) 1 = [10, 11] \<and>
   snd (snd (insertStyle exampleDoc [ghostSheet, newSheet] 12 (fooOptions 1))) = []"
  by code_simp

text \<open>
  C9, as the code has it: when the insertion point is a marker that is not empty, no
  comment of the head has the marker as its trimmed text, and no attached sheet of the
  registry has the same insertion point, then \<^verbatim>\<open>insertStyle\<close> throws nothing, the style
  element becomes the last child of the head, and one warning is emitted when the
  marker is not \<^verbatim>\<open>jss\<close>, none when it is. The style element does not contain the head.
\<close>

theorem missing_marker_appends_and_warns:
  assumes ip: "insertionPoint opts = Some (Marker text)"
    and ne: "text \<noteq> []"
    and nocomment: "findCommentNode d text = None"
    and alone: "\<forall>x \<in> set registry. \<not> (attached x \<and> insertionPoint (sheet_options x) = insertionPoint opts)"
    and anc: "\<not> contains d style (head d)"
  shows "\<exists>d'. insertStyle d registry style opts =
            (None, d', if text = ''jss'' then [] else [InsertionPointNotFound text]) \<and>
          childNodes d' (head d) = removeAll style (childNodes d (head d)) @ [style] \<and>
          parentNode d' style = Some (head d) \<and> head d' = head d"
proof -
  have prev: "findPrevNode d registry opts =
      (None, if text = ''jss'' then [] else [InsertionPointNotFound text])"
    using nocomment ne
    by (auto simp add: findPrevNode_def findHigherSheet_none [OF alone]
        findHighestSheet_none [OF alone] ip)
  have "\<exists>d'. insertBefore d (head d) style None = Inr d'"
    using anc by (simp add: insertBefore_def Let_def)
  then obtain d' where ib: "insertBefore d (head d) style None = Inr d'" by blast
  have ins: "insertStyle d registry style opts =
      (None, d', if text = ''jss'' then [] else [InsertionPointNotFound text])"
    by (simp add: insertStyle_def prev ip insertInto_def ib)
  have "childNodes d' (head d) = removeAll style (childNodes d (head d)) @ [style]"
    using insertBefore_result(2) [OF ib] by (simp add: placeBefore_def)
  then show ?thesis
    using ins insertBefore_result(1) [OF ib] insertBefore_result(4) [OF ib] by simp
qed

text \<open>
  The marker \<^verbatim>\<open>foo\<close> in the example document, with no attached sheet in the registry:
  the element is appended and the warning names the marker.
\<close>

theorem missing_marker_appends_and_warns_witness:
  "findCommentNode exampleDoc ''foo'' = None \<and>
   insertStyle exampleDoc [newSheet] 12 (fooOptions 1) =
     (None, fst (snd (insertStyle exampleDoc [newSheet] 12 (fooOptions 1))), [InsertionPointNotFound ''foo'']) \<and>
   childNodes (fst (snd (insertStyle exampleDoc [newSheet] 12 (fooOptions 1)))) 1 = [10, 11, 12]"
proof -
  have ip: "insertionPoint (fooOptions 1) = Some (Marker ''foo'')" by code_simp
  have ne: "''foo'' \<noteq> []" by simp
  have nocomment: "findCommentNode exampleDoc ''foo'' = None" by code_simp
  have alone: "\<forall>x \<in> set [newSheet]. \<not> (attached x \<and>
      insertionPoint (sheet_options x) = insertionPoint (fooOptions 1))" by code_simp
  have anc: "\<not> contains exampleDoc 12 (head exampleDoc)" by code_simp
  have cs: "removeAll 12 (childNodes exampleDoc (head exampleDoc)) @ [12] = [10, 11, 12]"
    and hd: "head exampleDoc = 1" by code_simp+
  from missing_marker_appends_and_warns [OF ip ne nocomment alone anc]
  show ?thesis using nocomment cs hd by auto
qed


text \<open>
  C9 as stated fails: with an attached sheet of a higher index at the same marker, the
  style element goes before that sheet's element, not to the end of the head, and no
  warning is emitted although the marker \<^verbatim>\<open>foo\<close> has no comment.
\<close>

theorem neighbour_before_marker_counterexample:
  "insertionPoint (fooOptions 1) = Some (Marker ''foo'') \<and>
   findCommentNode exampleDoc ''foo'' = None \<and>
   fst (insertStyle exampleDoc [attachedSheet, newSheet] 12 (fooOptions 1)) = None \<and>
   childNodes (fst (snd (insertStyle exampleDoc [attachedSheet, newSheet] 12 (fooOptions 1))))
     (head exampleDoc) = [12, 10, 11] \<and>
   snd (snd (insertStyle exampleDoc [attachedSheet, newSheet] 12 (fooOptions 1))) = []"
  by code_simp


section \<open>Attaching and detaching\<close>

lemma insertStyle_textContent:
  "insertStyle d registry style opts = (e, d2, ws) \<Longrightarrow> textContent d2 = textContent d"
  by (auto simp: insertStyle_def insertInto_def insertBefore_result(5)
      split: prod.splits option.splits insertion_point.splits sum.splits)


text \<open>
  C5: when rules have been inserted natively (\<^verbatim>\<open>hasInsertedRules\<close> is set) and the
  element is in no place, as after a detach, \<^verbatim>\<open>attach\<close> of a renderer with a sheet writes
  the serialization of the sheet's rules, between two newlines, into the element,
  clears the flag, and inserts the element into the document so deployed.
\<close>

theorem attach_redeploys_after_insertRule:
  assumes flag: "hasInsertedRules rn" and sh: "sheet rn = Some s"
    and np: "parentNode d (element rn) = None"
  shows "\<exists>e d2 ws. attach eng ts registry rn d = (e, rn\<lparr>hasInsertedRules := False\<rparr>, d2, ws) \<and>
           insertStyle (deploy eng ts rn d) registry (element rn) (sheet_options s) = (e, d2, ws) \<and>
           textContent (deploy eng ts rn d) (element rn) = newline @ toString ts (rules s) @ newline \<and>
           textContent d2 (element rn) = newline @ toString ts (rules s) @ newline"
proof -
  obtain e d2 ws where ins:
    "insertStyle (deploy eng ts rn d) registry (element rn) (sheet_options s) = (e, d2, ws)"
    by (metis prod_cases3)
  have att: "attach eng ts registry rn d = (e, rn\<lparr>hasInsertedRules := False\<rparr>, d2, ws)"
    by (simp add: attach_def np sh flag ins)
  have deployed: "textContent (deploy eng ts rn d) (element rn) = newline @ toString ts (rules s) @ newline"
    by (simp add: deploy_def sh setTextContent_def sheetToString_def)
  show ?thesis
    using ins att deployed insertStyle_textContent [OF ins] by simp
qed


text \<open>
  A rule is inserted natively into the attached sheet's element, the element is
  detached and attached again: the text of the element is the serialization of the
  rules and the flag is cleared.
\<close>

theorem attach_redeploys_after_insertRule_witness:
  "hasInsertedRules afterInsertRenderer \<and> sheet afterInsertRenderer = Some attachedSheet \<and>
   parentNode detachedDoc (element afterInsertRenderer) = None \<and>
   hasInsertedRules (fst (snd (attach exampleEngine exampleCss [attachedSheet\<lparr>attached := False\<rparr>]
     afterInsertRenderer detachedDoc))) = False \<and>
   textContent (fst (snd (snd (attach exampleEngine exampleCss [attachedSheet\<lparr>attached := False\<rparr>]
     afterInsertRenderer detachedDoc)))) 10 = newline @ ''color:red'' @ newline"
proof -
  have flag: "hasInsertedRules afterInsertRenderer" by code_simp
  have sh: "sheet afterInsertRenderer = Some attachedSheet" by code_simp
  have np: "parentNode detachedDoc (element afterInsertRenderer) = None" by code_simp
  have el: "element afterInsertRenderer = 10" by code_simp
  have css: "toString exampleCss (rules attachedSheet) = ''color:red''" by code_simp
  from attach_redeploys_after_insertRule [OF flag sh np, of exampleEngine exampleCss
      "[attachedSheet\<lparr>attached := False\<rparr>]"]
  show ?thesis using flag sh np el css by auto
qed


text \<open>
  C8, as the code has it: \<^verbatim>\<open>attach\<close> on a renderer whose element has a parent throws
  nothing and changes nothing. \<^verbatim>\<open>detach\<close> has no guard: on an element with a parent it
  takes the element out of the document and throws nothing; on an element without a
  parent it throws a TypeError.
\<close>

theorem attach_guarded_detach_unguarded:
  "(parentNode d (element rn) \<noteq> None \<longrightarrow> attach eng ts registry rn d = (None, rn, d, [])) \<and>
   (parentNode d (element rn) \<noteq> None \<longrightarrow>
      (\<exists>d'. detach rn d = (None, rn, d') \<and> parentNode d' (element rn) = None)) \<and>
   (parentNode d (element rn) = None \<longrightarrow> detach rn d = (Some TypeError, rn, d))"
  by (auto simp: attach_def detach_def parentNode_removeNode split: option.splits)


text \<open>Both renderers of the example: the attached one and the one in no place.\<close>

theorem attach_guarded_detach_unguarded_witness:
  "parentNode exampleDoc (element attachedRenderer) = Some 1 \<and>
   attach exampleEngine exampleCss [attachedSheet, newSheet] attachedRenderer exampleDoc =
     (None, attachedRenderer, exampleDoc, []) \<and>
   fst (detach attachedRenderer exampleDoc) = None \<and>
   parentNode exampleDoc (element newRenderer) = None \<and>
   detach newRenderer exampleDoc = (Some TypeError, newRenderer, exampleDoc)"
proof -
  have p: "parentNode exampleDoc (element attachedRenderer) = Some 1" by code_simp
  have n: "parentNode exampleDoc (element newRenderer) = None" by code_simp
  have a: "attach exampleEngine exampleCss [attachedSheet, newSheet] attachedRenderer exampleDoc =
     (None, attachedRenderer, exampleDoc, [])"
    using attach_guarded_detach_unguarded [of exampleDoc attachedRenderer] p by simp
  have "parentNode exampleDoc (element attachedRenderer) \<noteq> None" using p by simp
  then obtain d' where "detach attachedRenderer exampleDoc = (None, attachedRenderer, d')"
    using attach_guarded_detach_unguarded [of exampleDoc attachedRenderer] by blast
  then have b: "fst (detach attachedRenderer exampleDoc) = None" by simp
  have c: "detach newRenderer exampleDoc = (Some TypeError, newRenderer, exampleDoc)"
    using attach_guarded_detach_unguarded [of exampleDoc newRenderer] n by simp
  show ?thesis using p n a b c by simp
qed


text \<open>
  C8 as stated fails: \<^verbatim>\<open>detach\<close> on a renderer whose element is in no place throws.
\<close>

theorem detach_without_parent_counterexample:
  "parentNode exampleDoc (element newRenderer) = None \<and>
   fst (detach newRenderer exampleDoc) = Some TypeError"
  by code_simp


section \<open>Inserting a rule natively\<close>

text \<open>
  C10: \<^verbatim>\<open>insertRule\<close> with the index 0 does what it does with no index: when the
  browser accepts the rule's text, the native rule is put after all the rules of the
  element, not before them.
\<close>

theorem insertRule_index_zero_appends:
  "insertRule eng ts rn d r (Some 0) = insertRule eng ts rn d r None \<and>
   (nativeRules d (element rn) = Some cssRules \<and> ts r \<noteq> [] \<and> parseRule eng (ts r) = Some c \<longrightarrow>
      insertRule eng ts rn d r (Some 0) =
        (Inr (Some c), rn\<lparr>hasInsertedRules := True\<rparr>,
         d\<lparr>nativeRules := (nativeRules d)(element rn \<mapsto> cssRules @ [c])\<rparr>, []))"
  by (simp add: insertRule_def nativeInsertRule_def Let_def nth_append split: option.splits)


text \<open>With one native rule in the element, the rule inserted at index 0 is the second.\<close>

theorem insertRule_index_zero_appends_witness:
  "nativeRules exampleDoc (element attachedRenderer) = Some [oldNative] \<and>
   exampleCss ruleB \<noteq> [] \<and> parseRule exampleEngine (exampleCss ruleB) = Some newNative \<and>
   fst (insertRule exampleEngine exampleCss attachedRenderer exampleDoc ruleB (Some 0)) = Inr (Some newNative) \<and>
   nativeRules (fst (snd (snd (insertRule exampleEngine exampleCss attachedRenderer exampleDoc ruleB (Some 0)))))
     (element attachedRenderer) = Some [oldNative, newNative]"
proof -
  have h: "nativeRules exampleDoc (element attachedRenderer) = Some [oldNative] \<and>
      exampleCss ruleB \<noteq> [] \<and> parseRule exampleEngine (exampleCss ruleB) = Some newNative"
    by code_simp
  have "insertRule exampleEngine exampleCss attachedRenderer exampleDoc ruleB (Some 0) =
        (Inr (Some newNative), attachedRenderer\<lparr>hasInsertedRules := True\<rparr>,
         exampleDoc\<lparr>nativeRules := (nativeRules exampleDoc)(element attachedRenderer \<mapsto> [oldNative] @ [newNative])\<rparr>, [])"
    using insertRule_index_zero_appends [of exampleEngine exampleCss attachedRenderer exampleDoc ruleB
      "[oldNative]" newNative] h by blast
  then show ?thesis using h by simp
qed

end
